theory Spec2Isabelle
  imports Complex_Main
begin

section \<open>Values and records of the track-log converter\<close>

text \<open>
  The converter reads a flight track (coordinates and timestamps), removes points with a
  repeated timestamp, derives a ground speed and a heading from consecutive points and
  writes one CSV row per point under a fixed header. The repository holds three versions
  of the script: \<open>main.js\<close> (one url, asked for interactively) and two command-line
  versions, of which the later one (\<open>unnamed/part_001\<close>) takes several urls. The code
  between the download and the file write is the same in all three, apart from the hour
  pattern of the time column and the skip of short feeds; \<open>main.js\<close> and the version for
  several urls are modelled here.

  JavaScript numbers are modelled by their mathematical values: coordinates and distances
  are \<^typ>\<open>real\<close>, the results of \<open>Math.round\<close> and \<open>Math.floor\<close> are \<^typ>\<open>int\<close>, and
  a timestamp is the \<^typ>\<open>int\<close> that \<open>Date.getTime()\<close> returns (milliseconds since
  the epoch). Rounding of IEEE doubles, signed zeros and \<open>NaN\<close> are outside this model.
\<close>

text \<open>
  The value of \<open>row.spd\<close> and \<open>row.hdg\<close>: \<open>undefined\<close>, a finite integer, or one of
  the infinities that a division of a nonzero distance by a zero elapsed time gives.
\<close>

datatype jsnum = Undefined | Number int | Infinity | NegInfinity

text \<open>The exceptions that the code can raise on the paths modelled here.\<close>

datatype error = TypeError | RangeError | FetchError

text \<open>
  One element of \<open>rows\<close>: the object literal
  \<open>{ lat, lon, alt, t, date, time, zone, pitch, bank }\<close>, together with the two
  properties \<open>spd\<close> and \<open>hdg\<close> that the derived-field loop adds later (a property that
  has not been assigned reads as \<open>undefined\<close>).
\<close>

record row =
  lat :: real
  lon :: real
  alt :: int
  t :: int
  date :: string
  time :: string
  zone :: string
  pitch :: string
  bank :: string
  spd :: jsnum
  hdg :: jsnum

text \<open>
  The parsed KML: \<open>data.features\<close> is a list of features; of each feature the code reads
  \<open>geometry.coordinates\<close>, a list of triples \<open>[lon, lat, altitude in metres]\<close>, and
  \<open>properties.coordTimes\<close>. An entry of \<open>coordTimes\<close> is given by the value of
  \<open>new Date(times[i]).getTime()\<close>, with \<open>None\<close> for an invalid date.
\<close>

type_synonym coord = "real \<times> real \<times> real"

record feature =
  coordinates :: "coord list"
  coordTimes :: "int option list"

text \<open>
  What the script takes from its libraries and from the JavaScript engine, as parameters
  of the model: \<open>String(x)\<close> on a finite number, \<open>format(date, pattern)\<close> of date-fns on
  a valid date (under the UTC timezone mock), \<open>toLocaleUpperCase\<close>, and the download
  and parse of a KML link, \<open>toJson\<close> of parse-kml, which returns \<open>data.features\<close> or
  throws.
\<close>

record runtime =
  numstr :: "real \<Rightarrow> string"
  format :: "int \<Rightarrow> string \<Rightarrow> string"
  toLocaleUpperCase :: "string \<Rightarrow> string"
  toJson :: "string \<Rightarrow> error + feature list"

section \<open>Helpers: distance and bearing\<close>

text \<open>
  \<open>Math.atan2(y, x)\<close> on real numbers: the angle of the point \<open>(x, y)\<close> in
  \<open>(-\<pi>, \<pi>]\<close>, and \<open>0\<close> at the origin.
\<close>

definition atan2 :: "real \<Rightarrow> real \<Rightarrow> real" where
  "atan2 y x =
     (if 0 < x then arctan (y / x)
      else if x < 0 then (if 0 \<le> y then arctan (y / x) + pi else arctan (y / x) - pi)
      else if 0 < y then pi / 2
      else if y < 0 then - (pi / 2)
      else 0)"

text \<open>
  The haversine distance in nautical miles. \<open>sqrt\<close> is total in HOL; a negative argument,
  for which \<open>Math.sqrt\<close> gives \<open>NaN\<close>, is outside the model.
\<close>

definition deg2rad :: "real \<Rightarrow> real" where
  "deg2rad deg = deg * (pi / 180)"

definition getDistanceFromLatLonInNm :: "real \<Rightarrow> real \<Rightarrow> real \<Rightarrow> real \<Rightarrow> real" where
  "getDistanceFromLatLonInNm lat1 lon1 lat2 lon2 =
     (let R = 6378.137;
          dLat = deg2rad (lat2 - lat1);
          dLon = deg2rad (lon2 - lon1);
          a = sin (dLat / 2) * sin (dLat / 2) +
              cos (deg2rad lat1) * cos (deg2rad lat2) *
              sin (dLon / 2) * sin (dLon / 2);
          c = 2 * atan2 (sqrt a) (sqrt (1 - a));
          d = R * c
      in d / 1.8520000016)"

definition toRadians :: "real \<Rightarrow> real" where
  "toRadians degrees = degrees * pi / 180"

definition toDegrees :: "real \<Rightarrow> real" where
  "toDegrees radians = radians * 180 / pi"

text \<open>
  The remainder operator \<open>a % b\<close> on numbers, for a divisor that is not zero (the code
  divides by 360): the quotient is truncated towards zero, so the result has the sign of
  \<open>a\<close>.
\<close>

definition js_rem :: "real \<Rightarrow> real \<Rightarrow> real" where
  "js_rem a b =
     a - b * of_int (if 0 \<le> a / b then \<lfloor>a / b\<rfloor> else \<lceil>a / b\<rceil>)"

definition bearing :: "real \<Rightarrow> real \<Rightarrow> real \<Rightarrow> real \<Rightarrow> real" where
  "bearing startLat startLng destLat destLng =
     (let startLat = toRadians startLat;
          startLng = toRadians startLng;
          destLat = toRadians destLat;
          destLng = toRadians destLng;
          y = sin (destLng - startLng) * cos destLat;
          x = cos startLat * sin destLat -
              sin startLat * cos destLat * cos (destLng - startLng);
          brng = atan2 y x;
          brng = toDegrees brng
      in js_rem (brng + 360) 360)"

text \<open>\<open>Math.round\<close> rounds to the nearest integer, a half towards \<open>+\<infinity>\<close>.\<close>

definition js_round :: "real \<Rightarrow> int" where
  "js_round x = \<lfloor>x + 1 / 2\<rfloor>"

section \<open>Helpers: arrays and strings\<close>

text \<open>
  \<open>Array.prototype.findIndex\<close>: the index of the first element that satisfies the
  predicate, or \<open>-1\<close>.
\<close>

fun findIndex_from :: "('a \<Rightarrow> bool) \<Rightarrow> nat \<Rightarrow> 'a list \<Rightarrow> int" where
  "findIndex_from p i [] = - 1"
| "findIndex_from p i (x # xs) = (if p x then int i else findIndex_from p (Suc i) xs)"

definition findIndex :: "('a \<Rightarrow> bool) \<Rightarrow> 'a list \<Rightarrow> int" where
  "findIndex p xs = findIndex_from p 0 xs"

text \<open>
  \<open>Array.prototype.filter\<close> with the three-argument callback \<open>(element, index, self)\<close>.
\<close>

fun filter_from :: "('a \<Rightarrow> nat \<Rightarrow> 'a list \<Rightarrow> bool) \<Rightarrow> nat \<Rightarrow> 'a list \<Rightarrow> 'a list \<Rightarrow> 'a list" where
  "filter_from f i self [] = []"
| "filter_from f i self (x # xs) =
     (if f x i self then x # filter_from f (Suc i) self xs else filter_from f (Suc i) self xs)"

definition filter_js :: "('a \<Rightarrow> nat \<Rightarrow> 'a list \<Rightarrow> bool) \<Rightarrow> 'a list \<Rightarrow> 'a list" where
  "filter_js f xs = filter_from f 0 xs xs"

text \<open>
  The callback of both duplicate filters,
  \<open>(x, index, self) => self.findIndex(y => key(y) === key(x)) === index\<close>.
\<close>

definition first_index_by :: "('a \<Rightarrow> 'k) \<Rightarrow> 'a \<Rightarrow> nat \<Rightarrow> 'a list \<Rightarrow> bool" where
  "first_index_by key x index self \<longleftrightarrow> findIndex (\<lambda>y. key y = key x) self = int index"

text \<open>\<open>String.prototype.padStart\<close> and \<open>padEnd\<close> with the default filler, a space.\<close>

definition padStart :: "nat \<Rightarrow> string \<Rightarrow> string" where
  "padStart n s = replicate (n - length s) (CHR '' '') @ s"

definition padEnd :: "nat \<Rightarrow> string \<Rightarrow> string" where
  "padEnd n s = s @ replicate (n - length s) (CHR '' '')"

definition newline :: char where
  "newline = CHR 0x0A"

text \<open>\<open>String(v)\<close> for the value of \<open>row.spd\<close> or \<open>row.hdg\<close>.\<close>

fun String_of :: "runtime \<Rightarrow> jsnum \<Rightarrow> string" where
  "String_of rt Undefined = ''undefined''"
| "String_of rt (Number n) = numstr rt (of_int n)"
| "String_of rt Infinity = ''Infinity''"
| "String_of rt NegInfinity = ''-Infinity''"

text \<open>
  \<open>String.prototype.split\<close> with a separator of one character: the pieces between the
  separators, so one piece more than there are separators.
\<close>

fun split_on :: "char \<Rightarrow> string \<Rightarrow> string list" where
  "split_on c [] = [[]]"
| "split_on c (x # xs) =
     (if x = c then [] # split_on c xs
      else (case split_on c xs of [] \<Rightarrow> [[x]] | piece # pieces \<Rightarrow> (x # piece) # pieces))"

text \<open>\<open>href.split('/').pop()\<close>: the last piece.\<close>

definition last_segment :: "string \<Rightarrow> string" where
  "last_segment href = last (split_on (CHR ''/'') href)"

section \<open>The header\<close>

text \<open>
  The template literal \<open>header\<close> has three lines, each ended by a newline: the airframe
  line, which holds the upper-cased model and ident, the row of units and the row of
  column names.
\<close>

definition airframe_info :: "runtime \<Rightarrow> string \<Rightarrow> string \<Rightarrow> string" where
  \<open>airframe_info rt model ident =
     ''#airframe_info, log_version="1.00", airframe_name="'' @
     toLocaleUpperCase rt model @
     ''", unit_software_part_number="000-A0000-0A", unit_software_version="9.00", system_softwa'' @
     ''re_part_number="000-A0000-00", system_id="'' @
     toLocaleUpperCase rt ident @
     ''", mode=NORMAL,''\<close>

definition units_row :: string where
  \<open>units_row =
     ''#yyy-mm-dd, hh:mm:ss,   hh:mm,  ident,      degrees,      degrees, ft Baro,  inch,  ft m'' @
     ''sl, deg C,     kt,     kt,     fpm,    deg,    deg,      G,      G,   deg,   deg, volts,'' @
     ''   gals,   gals,      gph,      psi,   deg F,     psi,     Hg,    rpm,   deg F,   deg F,'' @
     ''   deg F,   deg F,   deg F,   deg F,   deg F,   deg F,  ft wgs,  kt, enum,    deg,    MH'' @
     ''z,    MHz,     MHz,     MHz,    fsd,    fsd,     kt,   deg,     nm,    deg,    deg,   bo'' @
     ''ol,  enum,   enum,   deg,   deg,   fpm,   enum,   mt,    mt,     mt,    mt,     mt''\<close>

definition names_row :: string where
  \<open>names_row =
     ''  Lcl Date, Lcl Time, UTCOfst, AtvWpt,     Latitude,    Longitude,    AltB, BaroA,  AltM'' @
     ''SL,   OAT,    IAS, GndSpd,    VSpd,  Pitch,   Roll,  LatAc, NormAc,   HDG,   TRK, volt1,'' @
     ''  FQtyL,  FQtyR, E1 FFlow, E1 FPres, E1 OilT, E1 OilP, E1 MAP, E1 RPM, E1 CHT1, E1 CHT2,'' @
     '' E1 CHT3, E1 CHT4, E1 EGT1, E1 EGT2, E1 EGT3, E1 EGT4,  AltGPS, TAS, HSIS,    CRS,   NAV'' @
     ''1,   NAV2,    COM1,    COM2,   HCDI,   VCDI, WndSpd, WndDr, WptDst, WptBrg, MagVar, Afcs'' @
     ''On, RollM, PitchM, RollC, PichC, VSpdG, GPSfix,  HAL,   VAL, HPLwas, HPLfd, VPLwas''\<close>

definition header :: "runtime \<Rightarrow> string \<Rightarrow> string \<Rightarrow> string" where
  "header rt model ident =
     airframe_info rt model ident @ [newline] @ units_row @ [newline] @ names_row @ [newline]"

section \<open>Reading the rows of a feed\<close>

text \<open>
  The body of the first loop. \<open>format\<close> throws a \<open>RangeError\<close> on an invalid date,
  which is also what \<open>new Date(times[i])\<close> is when \<open>times\<close> (here \<open>tms\<close>) is shorter
  than \<open>coordinates\<close>. The pattern of the time column is \<open>kk:mm:ss\<close> in \<open>main.js\<close> and
  \<open>HH:mm:ss\<close> in the two later versions.
\<close>

definition time_at :: "int option list \<Rightarrow> nat \<Rightarrow> int option" where
  "time_at tms i = (if i < length tms then tms ! i else None)"

definition make_row :: "runtime \<Rightarrow> string \<Rightarrow> coord \<Rightarrow> int \<Rightarrow> row" where
  "make_row rt pattern coord ms =
     (case coord of (lon0, lat0, alt0) \<Rightarrow>
        \<lparr>lat = lat0, lon = lon0, alt = js_round (alt0 * 3.280839895), t = ms,
         date = format rt ms ''yyyy-LL-dd'', time = format rt ms pattern,
         zone = ''-00:00'', pitch = ''0'', bank = ''0'',
         spd = Undefined, hdg = Undefined\<rparr>)"

fun read_rows :: "runtime \<Rightarrow> string \<Rightarrow> int option list \<Rightarrow> nat \<Rightarrow> coord list \<Rightarrow> error + row list" where
  "read_rows rt pattern tms i [] = Inr []"
| "read_rows rt pattern tms i (coord # rest) =
     (case time_at tms i of
        None \<Rightarrow> Inl RangeError
      | Some ms \<Rightarrow>
          (case read_rows rt pattern tms (Suc i) rest of
             Inl e \<Rightarrow> Inl e
           | Inr rows \<Rightarrow> Inr (make_row rt pattern coord ms # rows)))"

text \<open>
  \<open>data.features[2]\<close>: reading \<open>feat.geometry\<close> throws a \<open>TypeError\<close> when there is
  no third feature.
\<close>

definition third_feature :: "feature list \<Rightarrow> error + feature" where
  "third_feature features = (if 2 < length features then Inr (features ! 2) else Inl TypeError)"

section \<open>Duplicates, speed and heading\<close>

text \<open>
  \<open>rows.filter((row, index, self) =>
       self.findIndex(t => t.t.getTime() === row.t.getTime()) === index)\<close>
\<close>

definition dedup :: "row list \<Rightarrow> row list" where
  "dedup rows = filter_js (first_index_by t) rows"

text \<open>
  \<open>Math.floor(dist / (time / 1000 / 3600))\<close>, which the code evaluates only when
  the distance \<open>nm\<close> is not zero: a zero elapsed time gives an infinity with the sign of
  the distance.
\<close>

definition floor_quotient :: "real \<Rightarrow> real \<Rightarrow> jsnum" where
  "floor_quotient nm hours =
     (if hours = 0 then (if 0 < nm then Infinity else NegInfinity)
      else Number \<lfloor>nm / hours\<rfloor>)"

text \<open>
  The body of the second loop, for the previous row (\<open>last\<close> in the code) and the current
  \<open>row\<close>.
\<close>

definition derive_row :: "row \<Rightarrow> row \<Rightarrow> row" where
  "derive_row last_row row =
     (let dist = getDistanceFromLatLonInNm (lat last_row) (lon last_row) (lat row) (lon row);
          time = t row - t last_row;
          heading = bearing (lat last_row) (lon last_row) (lat row) (lon row)
      in if dist = 0 then row\<lparr>spd := Undefined, hdg := Undefined\<rparr>
         else row\<lparr>spd := floor_quotient dist (real_of_int time / 1000 / 3600),
                  hdg := Number \<lfloor>heading\<rfloor>\<rparr>)"

fun derive_from :: "row \<Rightarrow> row list \<Rightarrow> row list" where
  "derive_from last_row [] = []"
| "derive_from last_row (row # rest) =
     derive_row last_row row # derive_from (derive_row last_row row) rest"

text \<open>\<open>let last = rows[0]\<close> and the loop; on an empty array the loop does not run.\<close>

definition derive :: "row list \<Rightarrow> row list" where
  "derive rows = (case rows of [] \<Rightarrow> [] | row0 # _ \<Rightarrow> derive_from row0 rows)"

text \<open>
  \<open>if (rows[0].spd === undefined) rows[0].spd = rows[1].spd;\<close> and the same for
  \<open>hdg\<close>. Reading a property of \<open>rows[0]\<close> or \<open>rows[1]\<close> throws a \<open>TypeError\<close> when
  the array has no such element.
\<close>

definition backfill_spd :: "row list \<Rightarrow> error + row list" where
  "backfill_spd rows =
     (case rows of
        [] \<Rightarrow> Inl TypeError
      | row0 # rest \<Rightarrow>
          if spd row0 = Undefined
          then (case rest of
                  [] \<Rightarrow> Inl TypeError
                | row1 # _ \<Rightarrow> Inr (row0\<lparr>spd := spd row1\<rparr> # rest))
          else Inr rows)"

definition backfill_hdg :: "row list \<Rightarrow> error + row list" where
  "backfill_hdg rows =
     (case rows of
        [] \<Rightarrow> Inl TypeError
      | row0 # rest \<Rightarrow>
          if hdg row0 = Undefined
          then (case rest of
                  [] \<Rightarrow> Inl TypeError
                | row1 # _ \<Rightarrow> Inr (row0\<lparr>hdg := hdg row1\<rparr> # rest))
          else Inr rows)"

definition backfill :: "row list \<Rightarrow> error + row list" where
  "backfill rows = (case backfill_spd rows of Inl e \<Rightarrow> Inl e | Inr rows' \<Rightarrow> backfill_hdg rows')"

text \<open>
  The statements between the first loop and the output loop, which turn the rows that
  were read into the track that is written.
\<close>

definition synthesize :: "row list \<Rightarrow> error + row list" where
  "synthesize rows = backfill (derive (dedup rows))"

section \<open>Rendering\<close>

text \<open>The template literal of the output loop: one line, ended by a newline.\<close>

definition render_row :: "runtime \<Rightarrow> row \<Rightarrow> string" where
  "render_row rt row =
     padStart 10 (date row) @ '','' @ padStart 9 (time row) @ '','' @
     padStart 8 (zone row) @ '',       ,'' @
     padEnd 13 (numstr rt (lat row)) @ '','' @ padEnd 13 (numstr rt (lon row)) @
     '',        ,      ,'' @ padStart 8 (numstr rt (of_int (alt row))) @
     '',      ,       ,'' @ padStart 7 (String_of rt (spd row)) @
     '',        ,'' @ padStart 7 (pitch row) @ '','' @ padStart 7 (bank row) @
     '',       ,        ,     ,      ,      ,       ,       ,         ,         ,        ,        ,       ,       ,        ,        ,        ,        ,        ,        ,        ,        ,        ,    ,     ,'' @
     padStart 7 (String_of rt (hdg row)) @ [newline]"

text \<open>The output loop, \<open>output += ...\<close> for each row.\<close>

fun render_rows :: "runtime \<Rightarrow> string \<Rightarrow> row list \<Rightarrow> string" where
  "render_rows rt output [] = output"
| "render_rows rt output (row # rest) = render_rows rt (output @ render_row rt row) rest"

text \<open>The ten strings that the template literal interpolates, in their order.\<close>

definition row_strings :: "runtime \<Rightarrow> row \<Rightarrow> string list" where
  "row_strings rt row =
     [date row, time row, zone row, numstr rt (lat row), numstr rt (lon row),
      numstr rt (of_int (alt row)), String_of rt (spd row), pitch row, bank row,
      String_of rt (hdg row)]"

section \<open>The main function of \<open>main.js\<close>\<close>

text \<open>
  From the download to the track: the features of the link, the third feature, the rows,
  and the synthesis. \<open>min_len\<close> is the number of coordinates below which the feed is
  skipped (\<open>None\<close>): \<open>0\<close> in \<open>main.js\<close>, which has no such test, and \<open>2\<close> in the
  version for several urls (\<open>if (len <= 1) ... continue\<close>).
\<close>

definition track_of :: "runtime \<Rightarrow> string \<Rightarrow> nat \<Rightarrow> string \<Rightarrow> error + row list option" where
  "track_of rt pattern min_len link =
     (case toJson rt link of
        Inl e \<Rightarrow> Inl e
      | Inr features \<Rightarrow>
          (case third_feature features of
             Inl e \<Rightarrow> Inl e
           | Inr feat \<Rightarrow>
               if length (coordinates feat) < min_len then Inr None
               else (case read_rows rt pattern (coordTimes feat) 0 (coordinates feat) of
                       Inl e \<Rightarrow> Inl e
                     | Inr rows \<Rightarrow>
                         (case synthesize rows of
                            Inl e \<Rightarrow> Inl e
                          | Inr track \<Rightarrow> Inr (Some track)))))"

text \<open>
  \<open>main\<close> of \<open>main.js\<close>, after the prompt: the result is the name of the file and the
  text written to it, or the exception that ends the run. No feed is skipped here, and
  \<open>rows[0].t\<close> in the name of the file is read from the first row of the track.
\<close>

definition main :: "runtime \<Rightarrow> string \<Rightarrow> string \<Rightarrow> string \<Rightarrow> error + string \<times> string" where
  "main rt url ident model =
     (case track_of rt ''kk:mm:ss'' 0 (url @ ''/google_earth'') of
        Inl e \<Rightarrow> Inl e
      | Inr None \<Rightarrow> Inl TypeError
      | Inr (Some rows) \<Rightarrow>
          (case rows of
             [] \<Rightarrow> Inl TypeError
           | row0 # _ \<Rightarrow>
               Inr (''outputs/'' @ toLocaleUpperCase rt ident @ ''-'' @
                      format rt (t row0) ''yyyy-LL-dd-kk:mm'' @ ''.csv'',
                    header rt model ident @ render_rows rt [] rows)))"

section \<open>The main function for several urls\<close>

text \<open>
  \<open>urls.filter((url, index, self) => self.findIndex(t => t.href === url.href) === index)\<close>,
  with a url given by its \<open>href\<close>.
\<close>

definition remove_duplicate_urls :: "string list \<Rightarrow> string list" where
  "remove_duplicate_urls urls = filter_js (first_index_by (\<lambda>href. href)) urls"

definition link_of :: "string \<Rightarrow> string" where
  "link_of href =
     (if last_segment href = ''google_earth'' then href else href @ ''/google_earth'')"

text \<open>
  The loop over the urls, with its two variables \<open>output\<close> and \<open>first_timestamp\<close>
  (\<open>null\<close> is \<open>None\<close>). An exception in the body leaves the loop: the \<open>catch\<close> prints it
  and calls \<open>process.exit(1)\<close>.
\<close>

fun process_urls :: "runtime \<Rightarrow> string \<times> int option \<Rightarrow> string list \<Rightarrow> error + string \<times> int option" where
  "process_urls rt (output, first_timestamp) [] = Inr (output, first_timestamp)"
| "process_urls rt (output, first_timestamp) (href # urls) =
     (case track_of rt ''HH:mm:ss'' 2 (link_of href) of
        Inl e \<Rightarrow> Inl e
      | Inr None \<Rightarrow> process_urls rt (output, first_timestamp) urls
      | Inr (Some rows) \<Rightarrow>
          (case rows of
             [] \<Rightarrow> Inl TypeError
           | row0 # _ \<Rightarrow>
               process_urls rt
                 (render_rows rt output rows,
                  (if first_timestamp = None then Some (t row0) else first_timestamp))
                 urls))"

text \<open>
  The name of the file: \<open>args.output || `outputs/...`\<close>. \<open>output_arg\<close> is
  \<open>args.output\<close>, which is used when it is a non-empty string; the default name needs
  \<open>first_timestamp\<close>, and \<open>format\<close> throws on \<open>null\<close>.
\<close>

definition default_filename :: "runtime \<Rightarrow> string \<Rightarrow> int option \<Rightarrow> error + string" where
  "default_filename rt ident first_timestamp =
     (case first_timestamp of
        None \<Rightarrow> Inl RangeError
      | Some ms \<Rightarrow>
          Inr (''outputs/'' @ toLocaleUpperCase rt ident @ ''-'' @
                 format rt ms ''yyyy-LL-dd-HH:mm'' @ ''.csv''))"

definition filename_of :: "runtime \<Rightarrow> string \<Rightarrow> string option \<Rightarrow> int option \<Rightarrow> error + string" where
  "filename_of rt ident output_arg first_timestamp =
     (case output_arg of
        None \<Rightarrow> default_filename rt ident first_timestamp
      | Some name \<Rightarrow>
          if name = [] then default_filename rt ident first_timestamp else Inr name)"

text \<open>
  \<open>main\<close> of the version for several urls, after the arguments have been read.
\<close>

definition main_urls :: "runtime \<Rightarrow> string list \<Rightarrow> string \<Rightarrow> string \<Rightarrow> string option \<Rightarrow> error + string \<times> string" where
  "main_urls rt urls ident model output_arg =
     (case process_urls rt ([], None) (remove_duplicate_urls urls) of
        Inl e \<Rightarrow> Inl e
      | Inr (output, first_timestamp) \<Rightarrow>
          (case filename_of rt ident output_arg first_timestamp of
             Inl e \<Rightarrow> Inl e
           | Inr filename \<Rightarrow> Inr (filename, header rt model ident @ output)))"

section \<open>The duplicate filter as the specification words it\<close>

text \<open>
  The specification describes the duplicate filter as a stable filter that removes any
  point whose timestamp, to the second, repeats the timestamp of an earlier point. This
  is that description, for comparison with \<^const>\<open>dedup\<close>: \<open>seen\<close> holds the seconds of
  the points before the current one.
\<close>

fun spec_dedup_from :: "int list \<Rightarrow> row list \<Rightarrow> row list" where
  "spec_dedup_from seen [] = []"
| "spec_dedup_from seen (row # rest) =
     (if t row div 1000 \<in> set seen then spec_dedup_from seen rest
      else row # spec_dedup_from (t row div 1000 # seen) rest)"

definition spec_dedup_to_second :: "row list \<Rightarrow> row list" where
  "spec_dedup_to_second rows = spec_dedup_from [] rows"

section \<open>Sample inputs\<close>

text \<open>
  A runtime for the examples. \<open>sample_numstr\<close> agrees with \<open>String\<close> on the integers
  below \<open>10^21\<close> in absolute value, and \<open>sample_format\<close> with date-fns on the timestamps
  of 1 January 1970 for the five patterns of the scripts, and \<open>sample_upper\<close> with
  \<open>toLocaleUpperCase\<close> on ASCII text; the examples use no other numbers, dates and
  letters.
\<close>

definition digit :: "nat \<Rightarrow> char" where
  "digit n = ''0123456789'' ! (n mod 10)"

function decimal :: "nat \<Rightarrow> string" where
  "decimal n = (if n < 10 then [digit n] else decimal (n div 10) @ [digit n])"
  by pat_completeness auto
termination
  by (relation "measure (\<lambda>n. n)") auto

declare decimal.simps [simp del]

definition sample_numstr :: "real \<Rightarrow> string" where
  "sample_numstr x =
     (if x < 0 then CHR ''-'' # decimal (nat \<lfloor>- x\<rfloor>) else decimal (nat \<lfloor>x\<rfloor>))"

definition two_digits :: "nat \<Rightarrow> string" where
  "two_digits n = [digit (n div 10), digit n]"

definition sample_format :: "int \<Rightarrow> string \<Rightarrow> string" where
  "sample_format ms pattern =
     (let s = nat (ms div 1000);
          HH = two_digits (s div 3600 mod 24);
          kk = two_digits (if s div 3600 mod 24 = 0 then 24 else s div 3600 mod 24);
          mm = two_digits (s div 60 mod 60);
          ss = two_digits (s mod 60)
      in if pattern = ''yyyy-LL-dd'' then ''1970-01-01''
         else if pattern = ''HH:mm:ss'' then HH @ '':'' @ mm @ '':'' @ ss
         else if pattern = ''kk:mm:ss'' then kk @ '':'' @ mm @ '':'' @ ss
         else if pattern = ''yyyy-LL-dd-HH:mm'' then ''1970-01-01-'' @ HH @ '':'' @ mm
         else ''1970-01-01-'' @ kk @ '':'' @ mm)"

text \<open>
  Three feeds: a flight along the equator from longitude 0 to longitude 90 in one hour, a
  flight along the meridian from the equator to latitude 90 an hour later, and a feed
  with one coordinate. A link that \<open>sample_toJson\<close> does not know fails to download.
\<close>

definition marker :: feature where
  "marker = \<lparr>coordinates = [], coordTimes = []\<rparr>"

definition feed_a :: "feature list" where
  "feed_a = [marker, marker,
     \<lparr>coordinates = [(0, 0, 1000), (90, 0, 2000)], coordTimes = [Some 0, Some 3600000]\<rparr>]"

definition feed_b :: "feature list" where
  "feed_b = [marker, marker,
     \<lparr>coordinates = [(0, 0, 300), (0, 90, 600)],
      coordTimes = [Some 7200000, Some 10800000]\<rparr>]"

definition feed_short :: "feature list" where
  "feed_short = [marker, marker, \<lparr>coordinates = [(0, 0, 0)], coordTimes = [Some 0]\<rparr>]"

text \<open>
  Two more feeds of two coordinates: one that stays at one position for a minute, and one
  whose two timestamps are the same.
\<close>

definition feed_hold :: "feature list" where
  "feed_hold = [marker, marker,
     \<lparr>coordinates = [(- 70, 40, 100), (- 70, 40, 100)], coordTimes = [Some 0, Some 60000]\<rparr>]"

definition feed_same_time :: "feature list" where
  "feed_same_time = [marker, marker,
     \<lparr>coordinates = [(- 70, 40, 100), (- 70.01, 40.01, 200)], coordTimes = [Some 0, Some 0]\<rparr>]"

definition sample_toJson :: "string \<Rightarrow> error + feature list" where
  "sample_toJson link =
     (if link = ''fa/a/google_earth'' then Inr feed_a
      else if link = ''fa/b/google_earth'' then Inr feed_b
      else if link = ''fa/short/google_earth'' then Inr feed_short
      else if link = ''fa/hold/google_earth'' then Inr feed_hold
      else if link = ''fa/same/google_earth'' then Inr feed_same_time
      else Inl FetchError)"

definition sample_upper :: "char \<Rightarrow> char" where
  "sample_upper c =
     (case map_of (zip ''abcdefghijklmnopqrstuvwxyz'' ''ABCDEFGHIJKLMNOPQRSTUVWXYZ'') c of
        None \<Rightarrow> c
      | Some u \<Rightarrow> u)"

definition sample_runtime :: runtime where
  "sample_runtime =
     \<lparr>numstr = sample_numstr, format = sample_format,
      toLocaleUpperCase = map sample_upper, toJson = sample_toJson\<rparr>"

text \<open>Rows for the examples of the duplicate filter.\<close>

definition row_1000 :: row where
  "row_1000 = make_row sample_runtime ''HH:mm:ss'' (- 70, 40, 100) 1000"

definition row_1500 :: row where
  "row_1500 = make_row sample_runtime ''HH:mm:ss'' (- 70.01, 40.01, 200) 1500"

definition row_again :: row where
  "row_again = make_row sample_runtime ''HH:mm:ss'' (- 70.02, 40.02, 300) 1000"

text \<open>
  The rows that \<open>main.js\<close> reads from \<open>feed_hold\<close>, and the rows that the version for
  several urls reads from \<open>feed_a\<close>.
\<close>

definition hold_0 :: row where
  "hold_0 = make_row sample_runtime ''kk:mm:ss'' (- 70, 40, 100) 0"

definition hold_1 :: row where
  "hold_1 = make_row sample_runtime ''kk:mm:ss'' (- 70, 40, 100) 60000"

definition leg_0 :: row where
  "leg_0 = make_row sample_runtime ''HH:mm:ss'' (0, 0, 1000) 0"

definition leg_1 :: row where
  "leg_1 = make_row sample_runtime ''HH:mm:ss'' (90, 0, 2000) 3600000"

section \<open>The duplicate filter\<close>

lemma findIndex_from_eq:
  "findIndex_from p i xs =
     (if \<exists>x \<in> set xs. p x then int (i + length (takeWhile (\<lambda>x. \<not> p x) xs)) else - 1)"
  by (induction xs arbitrary: i) auto

lemma takeWhile_shorter:
  assumes "q \<in> set pre" and "\<not> P q"
  shows "length (takeWhile P (pre @ ys)) < length pre"
proof -
  have eq: "takeWhile P (pre @ ys) = takeWhile P pre"
    using assms by (rule takeWhile_append1)
  have "takeWhile P pre \<noteq> pre"
    using assms by (auto simp: takeWhile_eq_all_conv)
  moreover have "takeWhile P pre = take (length (takeWhile P pre)) pre"
    by (rule takeWhile_eq_take)
  ultimately have "length (takeWhile P pre) \<noteq> length pre"
    by (metis take_all order_refl)
  with length_takeWhile_le [of P pre] eq show ?thesis
    by simp
qed

lemma first_index_by_here:
  "first_index_by key x (length pre) (pre @ x # xs) \<longleftrightarrow> key x \<notin> key ` set pre"
proof (cases "key x \<in> key ` set pre")
  case True
  then obtain q where "q \<in> set pre" and "\<not> key q \<noteq> key x"
    by auto
  then have "length (takeWhile (\<lambda>q. key q \<noteq> key x) (pre @ x # xs)) < length pre"
    by (rule takeWhile_shorter)
  with True show ?thesis
    by (simp add: first_index_by_def findIndex_def findIndex_from_eq)
next
  case False
  then have "\<And>q. q \<in> set pre \<Longrightarrow> key q \<noteq> key x"
    by (metis imageI)
  then have "takeWhile (\<lambda>q. key q \<noteq> key x) (pre @ x # xs) = pre"
    by (simp add: takeWhile_append2)
  with False show ?thesis
    by (simp add: first_index_by_def findIndex_def findIndex_from_eq)
qed

lemma filter_from_step:
  "filter_from (first_index_by key) (length pre) (pre @ x # xs) (x # xs) =
     (if key x \<in> key ` set pre then [] else [x]) @
     filter_from (first_index_by key) (Suc (length pre)) ((pre @ [x]) @ xs) xs"
  using first_index_by_here [of key x pre xs] by simp

lemma filter_from_props:
  "set (filter_from (first_index_by key) (length pre) (pre @ xs) xs) \<subseteq> set xs \<and>
   distinct (map key (filter_from (first_index_by key) (length pre) (pre @ xs) xs)) \<and>
   key ` set (filter_from (first_index_by key) (length pre) (pre @ xs) xs) \<inter> key ` set pre = {}"
proof (induction xs arbitrary: pre)
  case Nil
  show ?case by simp
next
  case (Cons x xs)
  let ?rest = "filter_from (first_index_by key) (Suc (length pre)) ((pre @ [x]) @ xs) xs"
  from Cons.IH [of "pre @ [x]"]
  have sub: "set ?rest \<subseteq> set xs" and dist: "distinct (map key ?rest)"
    and disj: "key ` set ?rest \<inter> key ` set (pre @ [x]) = {}"
    by simp_all
  from disj have nx: "key x \<notin> key ` set ?rest" and np: "key ` set ?rest \<inter> key ` set pre = {}"
    by auto
  show ?case
    unfolding filter_from_step using sub dist nx np by auto
qed

lemma filter_from_nths:
  "filter_from (first_index_by key) (length pre) (pre @ xs) xs =
   nths xs {i. i < length xs \<and> key (xs ! i) \<notin> key ` set pre \<and>
               (\<forall>j<i. key (xs ! j) \<noteq> key (xs ! i))}"
proof (induction xs arbitrary: pre)
  case Nil
  show ?case by simp
next
  case (Cons x xs)
  let ?A = "{i. i < length (x # xs) \<and> key ((x # xs) ! i) \<notin> key ` set pre \<and>
                (\<forall>j<i. key ((x # xs) ! j) \<noteq> key ((x # xs) ! i))}"
  have shift: "{j. Suc j \<in> ?A} =
      {i. i < length xs \<and> key (xs ! i) \<notin> key ` set (pre @ [x]) \<and>
          (\<forall>j<i. key (xs ! j) \<noteq> key (xs ! i))}"
    by (auto simp: less_Suc_eq_0_disj)
  have zero: "0 \<in> ?A \<longleftrightarrow> key x \<notin> key ` set pre"
    by simp
  have "filter_from (first_index_by key) (length pre) (pre @ x # xs) (x # xs) =
      (if key x \<in> key ` set pre then [] else [x]) @
      filter_from (first_index_by key) (length (pre @ [x])) ((pre @ [x]) @ xs) xs"
    by (simp only: filter_from_step length_append_singleton)
  also have "\<dots> = (if 0 \<in> ?A then [x] else []) @ nths xs {j. Suc j \<in> ?A}"
    by (simp only: Cons.IH [of "pre @ [x]"] shift zero) simp
  also have "\<dots> = nths (x # xs) ?A"
    by (simp only: nths_Cons)
  finally show ?case .
qed

lemma filter_js_first_nths:
  "filter_js (first_index_by key) xs =
     nths xs {i. i < length xs \<and> (\<forall>j<i. key (xs ! j) \<noteq> key (xs ! i))}"
  using filter_from_nths [of key "[]" xs] by (simp add: filter_js_def)

lemma filter_js_first_distinct: "distinct (map key (filter_js (first_index_by key) xs))"
  using filter_from_props [of key "[]" xs] by (simp add: filter_js_def)

lemma filter_js_first_id:
  assumes "distinct (map key xs)"
  shows "filter_js (first_index_by key) xs = xs"
proof -
  have "\<And>i j. i < length xs \<Longrightarrow> j < i \<Longrightarrow> key (xs ! j) \<noteq> key (xs ! i)"
    using assms by (simp add: distinct_conv_nth)
  then have "{i. i < length xs \<and> (\<forall>j<i. key (xs ! j) \<noteq> key (xs ! i))} = {..<length xs}"
    by auto
  then show ?thesis
    by (simp add: filter_js_first_nths)
qed

lemma sample_times [simp]: "t row_1000 = 1000" "t row_1500 = 1500" "t row_again = 1000"
  by (simp_all add: row_1000_def row_1500_def row_again_def make_row_def)

text \<open>
  Claim C2, as the code has it. The duplicate filter keeps exactly the rows whose
  timestamp, in the milliseconds of \<open>getTime()\<close>, differs from the timestamp of every
  earlier row, in their original order: the first row of each timestamp stays and every
  later row with that timestamp goes.
\<close>

theorem dedup_first_occurrences:
  "dedup rows = nths rows {i. i < length rows \<and> (\<forall>j<i. t (rows ! j) \<noteq> t (rows ! i))}"
  unfolding dedup_def by (rule filter_js_first_nths)

theorem dedup_first_occurrences_witness:
  "dedup [row_1000, row_1500, row_again] = [row_1000, row_1500]"
  using dedup_first_occurrences [of "[row_1000, row_1500, row_again]"]
  by (simp add: nths_Cons less_Suc_eq_0_disj)

text \<open>
  Claim C2, as the specification states it, fails: two rows of the same second whose
  timestamps differ in the milliseconds are both kept, where a filter at a resolution of
  one second keeps the first only.
\<close>

theorem dedup_to_second_counterexample:
  "t row_1000 div 1000 = t row_1500 div 1000 \<and>
   spec_dedup_to_second [row_1000, row_1500] = [row_1000] \<and>
   dedup [row_1000, row_1500] = [row_1000, row_1500]"
  by (simp add: spec_dedup_to_second_def dedup_def filter_js_def first_index_by_def findIndex_def)

text \<open>
  Claim C9. The duplicate filter is idempotent: filtering a filtered sequence of rows
  changes nothing.
\<close>

theorem dedup_idempotent: "dedup (dedup rows) = dedup rows"
  unfolding dedup_def by (rule filter_js_first_id) (rule filter_js_first_distinct)

section \<open>Bearing and distance\<close>

lemma atan2_bounds: "- pi < atan2 y x \<and> atan2 y x \<le> pi"
proof -
  have b: "- (pi / 2) < arctan (y / x)" "arctan (y / x) < pi / 2"
    by (rule arctan_lbound, rule arctan_ubound)
  have pos: "0 < pi" by simp
  consider "0 < x" | "x < 0" "0 \<le> y" | "x < 0" "y < 0" | "x = 0"
    by linarith
  then show ?thesis
  proof cases
    case 1
    then have "atan2 y x = arctan (y / x)" by (simp add: atan2_def)
    with b pos show ?thesis by linarith
  next
    case 2
    then have "y / x \<le> 0" by (simp add: divide_nonneg_neg)
    then have "arctan (y / x) \<le> 0" by (simp add: arctan_le_zero_iff)
    moreover from 2 have "atan2 y x = arctan (y / x) + pi" by (simp add: atan2_def)
    ultimately show ?thesis using b pos by linarith
  next
    case 3
    then have "0 < y / x" by (simp add: divide_neg_neg)
    then have "0 < arctan (y / x)" by (simp add: zero_less_arctan_iff)
    moreover from 3 have "atan2 y x = arctan (y / x) - pi" by (simp add: atan2_def)
    ultimately show ?thesis using b pos by linarith
  next
    case 4
    have "- (pi / 2) \<le> pi" using pos by linarith
    with 4 pos show ?thesis by (simp add: atan2_def)
  qed
qed

lemma js_rem_range:
  assumes "0 \<le> a" and "0 < b"
  shows "0 \<le> js_rem a b \<and> js_rem a b < b"
proof -
  have q: "0 \<le> a / b" using assms by simp
  have lo: "of_int \<lfloor>a / b\<rfloor> \<le> a / b" by (rule of_int_floor_le)
  have hi: "a / b < of_int \<lfloor>a / b\<rfloor> + 1" by linarith
  have "of_int \<lfloor>a / b\<rfloor> * b \<le> a"
    using lo assms(2) by (simp only: pos_le_divide_eq)
  moreover have "a < (of_int \<lfloor>a / b\<rfloor> + 1) * b"
    using hi assms(2) by (simp only: pos_divide_less_eq)
  ultimately show ?thesis
    using q by (simp add: js_rem_def algebra_simps)
qed

lemma toDegrees_bounds:
  assumes "- pi < r" and "r \<le> pi"
  shows "- 180 < toDegrees r \<and> toDegrees r \<le> 180"
proof -
  have "0 < pi" by simp
  then show ?thesis
    using assms by (simp add: toDegrees_def pos_less_divide_eq pos_divide_le_eq)
qed

text \<open>
  Claim C8. For all coordinates of the start and of the destination the bearing lies in
  the half-open interval from 0 to 360: the angle of \<open>atan2\<close> is above \<open>-\<pi>\<close>, so the
  sum with 360 degrees is positive and the remainder keeps it below 360.
\<close>

theorem bearing_range:
  "0 \<le> bearing startLat startLng destLat destLng \<and>
   bearing startLat startLng destLat destLng < 360"
proof -
  define y where "y = sin (toRadians destLng - toRadians startLng) * cos (toRadians destLat)"
  define x where "x = cos (toRadians startLat) * sin (toRadians destLat) -
     sin (toRadians startLat) * cos (toRadians destLat) *
     cos (toRadians destLng - toRadians startLng)"
  have eq: "bearing startLat startLng destLat destLng = js_rem (toDegrees (atan2 y x) + 360) 360"
    by (simp add: bearing_def Let_def x_def y_def)
  have "- 180 < toDegrees (atan2 y x)"
    using toDegrees_bounds [of "atan2 y x"] atan2_bounds [of y x] by simp
  then have "0 \<le> toDegrees (atan2 y x) + 360"
    by simp
  then show ?thesis
    unfolding eq by (intro js_rem_range) simp_all
qed

section \<open>Speed, heading and the first row\<close>

lemma derive_row_fields [simp]:
  "lat (derive_row l r) = lat r" "lon (derive_row l r) = lon r" "t (derive_row l r) = t r"
  by (simp_all add: derive_row_def Let_def)

lemma floor_quotient_defined [simp]: "floor_quotient d h \<noteq> Undefined"
  by (simp add: floor_quotient_def)


lemma derive_row_undefined:
  "getDistanceFromLatLonInNm (lat l) (lon l) (lat r) (lon r) = 0 \<Longrightarrow>
   spd (derive_row l r) = Undefined \<and> hdg (derive_row l r) = Undefined"
  by (simp add: derive_row_def Let_def)

lemma length_derive_from [simp]: "length (derive_from l rows) = length rows"
  by (induction rows arbitrary: l) simp_all


lemma distance_same: "getDistanceFromLatLonInNm la lo la lo = 0"
  by (simp add: getDistanceFromLatLonInNm_def deg2rad_def atan2_def)

lemma derive_row_self: "derive_row r r = r\<lparr>spd := Undefined, hdg := Undefined\<rparr>"
  by (simp add: derive_row_def distance_same)

lemma backfill_derive_nil: "backfill (derive []) = Inl TypeError"
  by (simp add: backfill_def backfill_spd_def derive_def)

lemma backfill_derive_one: "backfill (derive [r]) = Inl TypeError"
  by (simp add: backfill_def backfill_spd_def derive_def derive_row_self)

lemma backfill_derive_more:
  "backfill (derive (r0 # r1 # rest)) =
     Inr (derive_row r0 r0
            \<lparr>spd := spd (derive_row (derive_row r0 r0) r1),
             hdg := hdg (derive_row (derive_row r0 r0) r1)\<rparr> #
          derive_from (derive_row r0 r0) (r1 # rest))"
  by (simp add: backfill_def backfill_spd_def backfill_hdg_def derive_def derive_row_self)

lemma synthesize_cases:
  assumes "synthesize rows = Inr track"
  obtains r0 r1 rest where "dedup rows = r0 # r1 # rest"
    and "track = derive_row r0 r0
            \<lparr>spd := spd (derive_row (derive_row r0 r0) r1),
             hdg := hdg (derive_row (derive_row r0 r0) r1)\<rparr> #
          derive_from (derive_row r0 r0) (r1 # rest)"
proof (cases "dedup rows")
  case Nil
  with assms show ?thesis by (simp add: synthesize_def backfill_derive_nil)
next
  case (Cons r0 more)
  show ?thesis
  proof (cases more)
    case Nil
    with Cons assms show ?thesis by (simp add: synthesize_def backfill_derive_one)
  next
    case (Cons r1 rest)
    with \<open>dedup rows = r0 # more\<close> assms that [of r0 r1 rest] show ?thesis
      by (simp only: synthesize_def backfill_derive_more sum.inject)
  qed
qed

lemma dedup_two: "t a \<noteq> t b \<Longrightarrow> dedup [a, b] = [a, b]"
  by (simp add: dedup_def filter_js_def first_index_by_def findIndex_def)

lemma dedup_two_same: "t a = t b \<Longrightarrow> dedup [a, b] = [a]"
  by (simp add: dedup_def filter_js_def first_index_by_def findIndex_def)


lemma leg_fields [simp]:
  "lat leg_0 = 0" "lon leg_0 = 0" "t leg_0 = 0" "lat leg_1 = 0" "lon leg_1 = 90" "t leg_1 = 3600000"
  by (simp_all add: leg_0_def leg_1_def make_row_def)




lemma t_make_row [simp]: "t (make_row rt pattern coord ms) = ms"
  by (simp add: make_row_def split: prod.splits)

lemma remove_duplicate_urls_one [simp]: "remove_duplicate_urls [href] = [href]"
  by (simp add: remove_duplicate_urls_def filter_js_def first_index_by_def findIndex_def)

text \<open>
  Claim C1. A feed of exactly two coordinates with one and the same timestamp ends the run
  with a \<open>TypeError\<close>, in \<open>main.js\<close> and in the version for several urls: the duplicate
  filter leaves one row, whose speed is undefined, and the statement that copies the speed
  of the second row reads a property of \<open>rows[1]\<close>, which is \<open>undefined\<close>. No row is
  rendered and no file is written.
\<close>

theorem same_time_TypeError:
  "main (rt\<lparr>toJson := \<lambda>link. Inr [f0, f1, \<lparr>coordinates = [c1, c2],
                                              coordTimes = [Some ms, Some ms]\<rparr>]\<rparr>)
     url ident model = Inl TypeError \<and>
   main_urls (rt\<lparr>toJson := \<lambda>link. Inr [f0, f1, \<lparr>coordinates = [c1, c2],
                                                   coordTimes = [Some ms, Some ms]\<rparr>]\<rparr>)
     [href] ident model output_arg = Inl TypeError"
  by (simp add: main_def main_urls_def track_of_def third_feature_def time_at_def
      synthesize_def dedup_two_same backfill_derive_one)


section \<open>The rendered text\<close>

lemma split_on_none: "c \<notin> set s \<Longrightarrow> split_on c s = [s]"
  by (induction s) auto

lemma split_on_line: "c \<notin> set l \<Longrightarrow> split_on c (l @ c # rest) = l # split_on c rest"
  by (induction l) auto

lemma length_split_on: "length (split_on c s) = Suc (count_list s c)"
  by (induction s) (auto split: list.splits)

lemma count_list_replicate: "count_list (replicate n x) y = (if x = y then n else 0)"
  by (induction n) auto

lemma count_pad:
  "c \<noteq> CHR '' '' \<Longrightarrow> count_list (padStart n s) c = count_list s c"
  "c \<noteq> CHR '' '' \<Longrightarrow> count_list (padEnd n s) c = count_list s c"
  by (simp_all add: padStart_def padEnd_def count_list_replicate)

lemma count_list_absent: "c \<notin> set s \<Longrightarrow> count_list s c = 0"
  by (induction s) auto

lemma render_row_commas:
  assumes "\<forall>s \<in> set (row_strings rt row). CHR '','' \<notin> set s"
  shows "count_list (butlast (render_row rt row)) (CHR '','') = 39"
  using assms
  by (simp add: render_row_def butlast_append row_strings_def count_pad count_list_absent)

lemma units_row_fields: "length (split_on (CHR '','') units_row) = 63"
  by (simp add: units_row_def)

lemma names_row_fields: "length (split_on (CHR '','') names_row) = 63"
  by (simp add: names_row_def)

lemma hold_strings:
  "row_strings sample_runtime hold_1 =
     [''1970-01-01'', ''24:01:00'', ''-00:00'', ''40'', ''-70'', ''328'', ''undefined'',
      ''0'', ''0'', ''undefined'']"
  "row_strings sample_runtime hold_0 =
     [''1970-01-01'', ''24:00:00'', ''-00:00'', ''40'', ''-70'', ''328'', ''undefined'',
      ''0'', ''0'', ''undefined'']"
  by (simp_all add: row_strings_def hold_1_def hold_0_def make_row_def sample_runtime_def
      sample_format_def two_digits_def digit_def sample_numstr_def decimal.simps js_round_def
      Let_def)

text \<open>
  Claim C4, as the code has it. When none of the ten strings that a row interpolates
  contains a comma, the rendered line of the row has exactly 40 fields between its
  commas, and the row of units and the row of column names of the header have 63 fields
  each.
\<close>

theorem data_line_fields:
  assumes "\<forall>s \<in> set (row_strings rt row). CHR '','' \<notin> set s"
  shows "length (split_on (CHR '','') (butlast (render_row rt row))) = 40 \<and>
         length (split_on (CHR '','') units_row) = 63 \<and>
         length (split_on (CHR '','') names_row) = 63"
proof -
  have "length (split_on (CHR '','') (butlast (render_row rt row))) = 40"
    using render_row_commas [OF assms] by (simp add: length_split_on)
  with units_row_fields names_row_fields show ?thesis
    by (intro conjI)
qed

theorem data_line_fields_witness:
  "length (split_on (CHR '','') (butlast (render_row sample_runtime hold_1))) = 40 \<and>
   length (split_on (CHR '','') units_row) = 63 \<and>
   length (split_on (CHR '','') names_row) = 63"
proof -
  have "\<forall>s \<in> set (row_strings sample_runtime hold_1). CHR '','' \<notin> set s"
    by (simp add: hold_strings)
  then show ?thesis
    by (rule data_line_fields)
qed


text \<open>
  Claim C4, as the specification states it, fails: the line of a row has 40 fields and
  the two rows of the header have 63, not 44, and the line of a row is shorter than the
  rows of the header.
\<close>

theorem data_line_44_counterexample:
  "butlast (render_row sample_runtime hold_0) =
     ''1970-01-01, 24:00:00,  -00:00,       ,40           ,-70          ,        ,     '' @
     '' ,     328,      ,       ,undefined,        ,      0,      0,       ,        ,  '' @
     ''   ,      ,      ,       ,       ,         ,         ,        ,        ,       ,'' @
     ''       ,        ,        ,        ,        ,        ,        ,        ,        ,'' @
     ''        ,    ,     ,undefined'' \<and>
   length (split_on (CHR '','') (butlast (render_row sample_runtime hold_0))) = 40 \<and>
   length (split_on (CHR '','') units_row) = 63 \<and>
   length (split_on (CHR '','') names_row) = 63"
proof -
  have fields: "date hold_0 = ''1970-01-01''" "time hold_0 = ''24:00:00''"
    "zone hold_0 = ''-00:00''" "numstr sample_runtime (lat hold_0) = ''40''"
    "numstr sample_runtime (lon hold_0) = ''-70''"
    "numstr sample_runtime (of_int (alt hold_0)) = ''328''"
    "String_of sample_runtime (spd hold_0) = ''undefined''" "pitch hold_0 = ''0''"
    "bank hold_0 = ''0''" "String_of sample_runtime (hdg hold_0) = ''undefined''"
    using hold_strings(2) by (simp_all add: row_strings_def)
  have line: "butlast (render_row sample_runtime hold_0) =
     ''1970-01-01, 24:00:00,  -00:00,       ,40           ,-70          ,        ,     '' @
     '' ,     328,      ,       ,undefined,        ,      0,      0,       ,        ,  '' @
     ''   ,      ,      ,       ,       ,         ,         ,        ,        ,       ,'' @
     ''       ,        ,        ,        ,        ,        ,        ,        ,        ,'' @
     ''        ,    ,     ,undefined''"
    by (simp add: render_row_def butlast_append fields padStart_def padEnd_def
        eval_nat_numeral)
  have "length (split_on (CHR '','') (butlast (render_row sample_runtime hold_0))) = 40"
    unfolding line by simp
  with line units_row_fields names_row_fields show ?thesis
    by (intro conjI)
qed

lemma render_rows_concat: "render_rows rt out rows = out @ concat (map (render_row rt) rows)"
  by (induction rows arbitrary: out) simp_all

lemma split_lines:
  "\<forall>l \<in> set ls. c \<notin> set l \<Longrightarrow>
   split_on c (concat (map (\<lambda>l. l @ [c]) ls) @ rest) = ls @ split_on c rest"
  by (induction ls) (simp_all add: split_on_line)

lemma set_pad:
  "set (padStart n s) \<subseteq> insert (CHR '' '') (set s)"
  "set (padEnd n s) \<subseteq> insert (CHR '' '') (set s)"
  by (auto simp: padStart_def padEnd_def)

lemma newline_pad:
  "newline \<notin> set s \<Longrightarrow> newline \<notin> set (padStart n s)"
  "newline \<notin> set s \<Longrightarrow> newline \<notin> set (padEnd n s)"
  using set_pad [of n s] by (auto simp: newline_def)

lemma render_row_line:
  assumes "\<forall>s \<in> set (row_strings rt row). newline \<notin> set s"
  shows "render_row rt row = butlast (render_row rt row) @ [newline]"
    and "newline \<notin> set (butlast (render_row rt row))"
  using assms
  by (simp_all add: render_row_def butlast_append row_strings_def newline_pad)
    (simp_all add: newline_def)

lemma header_rows_newline:
  "newline \<notin> set units_row" "newline \<notin> set names_row"
  by (simp_all add: units_row_def names_row_def newline_def)

lemma airframe_info_newline:
  "newline \<notin> set (toLocaleUpperCase rt model) \<Longrightarrow>
   newline \<notin> set (toLocaleUpperCase rt ident) \<Longrightarrow>
   newline \<notin> set (airframe_info rt model ident)"
  by (simp add: airframe_info_def) (simp add: newline_def)

lemma text_lines:
  assumes "newline \<notin> set (toLocaleUpperCase rt model)"
    and "newline \<notin> set (toLocaleUpperCase rt ident)"
    and "\<forall>row \<in> set track. \<forall>s \<in> set (row_strings rt row). newline \<notin> set s"
  shows "split_on newline (header rt model ident @ render_rows rt [] track) =
     [airframe_info rt model ident, units_row, names_row] @
     map (\<lambda>row. butlast (render_row rt row)) track @ [[]]"
proof -
  let ?lines = "map (\<lambda>row. butlast (render_row rt row)) track"
  have "map (render_row rt) track = map (\<lambda>l. l @ [newline]) ?lines"
    using assms(3) render_row_line(1) by (simp add: comp_def)
  then have body: "render_rows rt [] track = concat (map (\<lambda>l. l @ [newline]) ?lines) @ []"
    by (simp only: render_rows_concat append_Nil append_Nil2)
  have free: "\<forall>l \<in> set ?lines. newline \<notin> set l"
    using assms(3) render_row_line(2) by auto
  have "split_on newline (render_rows rt [] track) = ?lines @ [[]]"
    unfolding body using split_lines [OF free, of "[]"] by simp
  then show ?thesis
    using airframe_info_newline [OF assms(1,2)] header_rows_newline
    by (simp add: header_def split_on_line)
qed

section \<open>The file that \<open>main.js\<close> writes\<close>

lemma track_of_hold:
  "track_of sample_runtime ''kk:mm:ss'' 0 ''fa/hold/google_earth'' = Inr (Some [hold_0, hold_1])"
proof -
  have "synthesize [hold_0, hold_1] = Inr [hold_0, hold_1]"
    by (simp add: synthesize_def dedup_two backfill_derive_more derive_row_def distance_same
      hold_0_def hold_1_def make_row_def)
  then show ?thesis
    by (simp add: track_of_def sample_runtime_def sample_toJson_def feed_hold_def
        third_feature_def time_at_def hold_0_def hold_1_def)
qed

lemma synthesize_nonempty: "synthesize rows = Inr track \<Longrightarrow> track \<noteq> []"
  by (erule synthesize_cases) simp

lemma track_of_nonempty: "track_of rt pattern n link = Inr (Some track) \<Longrightarrow> track \<noteq> []"
  by (auto simp: track_of_def synthesize_nonempty split: sum.splits if_splits)

lemma sample_upper_text:
  "toLocaleUpperCase sample_runtime ''c172'' = ''C172''"
  "toLocaleUpperCase sample_runtime ''n12345'' = ''N12345''"
  by (simp_all add: sample_runtime_def sample_upper_def)

text \<open>
  Claim C5, as the code has it. When the track of the url is synthesized, \<open>main\<close> returns
  a file, and when neither the upper-cased model and ident nor the interpolated strings
  of a row contain a newline, the text of the file consists of exactly three header
  lines (the airframe line, the row of units and the row of column names) followed by
  exactly one line per row of the track, each ended by a newline; the last piece of the
  split is the empty text after the final newline.
\<close>

theorem main_text_lines:
  assumes "track_of rt ''kk:mm:ss'' 0 (url @ ''/google_earth'') = Inr (Some track)"
    and "newline \<notin> set (toLocaleUpperCase rt model)"
    and "newline \<notin> set (toLocaleUpperCase rt ident)"
    and "\<forall>row \<in> set track. \<forall>s \<in> set (row_strings rt row). newline \<notin> set s"
  shows "\<exists>filename text. main rt url ident model = Inr (filename, text) \<and>
     split_on newline text =
       [airframe_info rt model ident, units_row, names_row] @
       map (\<lambda>row. butlast (render_row rt row)) track @ [[]]"
proof -
  from assms(1) have "track \<noteq> []"
    by (rule track_of_nonempty)
  then obtain row0 rest where "track = row0 # rest"
    by (cases track) auto
  with assms(1) have "main rt url ident model =
      Inr (''outputs/'' @ toLocaleUpperCase rt ident @ ''-'' @
             format rt (t row0) ''yyyy-LL-dd-kk:mm'' @ ''.csv'',
           header rt model ident @ render_rows rt [] track)"
    by (simp add: main_def)
  with text_lines [OF assms(2,3,4)] show ?thesis
    by blast
qed

theorem main_text_lines_witness:
  "\<exists>filename text. main sample_runtime ''fa/hold'' ''n12345'' ''c172'' = Inr (filename, text) \<and>
     split_on newline text =
       [airframe_info sample_runtime ''c172'' ''n12345'', units_row, names_row,
        butlast (render_row sample_runtime hold_0),
        butlast (render_row sample_runtime hold_1), []]"
proof -
  have run: "track_of sample_runtime ''kk:mm:ss'' 0 (''fa/hold'' @ ''/google_earth'') =
      Inr (Some [hold_0, hold_1])"
    using track_of_hold by simp
  have up: "newline \<notin> set (toLocaleUpperCase sample_runtime ''c172'')"
    "newline \<notin> set (toLocaleUpperCase sample_runtime ''n12345'')"
    by (simp_all add: sample_upper_text newline_def)
  have rows: "\<forall>row \<in> set [hold_0, hold_1].
      \<forall>s \<in> set (row_strings sample_runtime row). newline \<notin> set s"
    by (simp add: hold_strings newline_def)
  from main_text_lines [OF run up rows] show ?thesis
    by simp
qed

text \<open>
  Claim C5, as the specification states it, fails: the header has three lines, not two,
  so the file of a track of two rows has five lines.
\<close>

theorem two_header_lines_counterexample:
  "main sample_runtime ''fa/hold'' ''n12345'' ''c172'' =
     Inr (''outputs/N12345-1970-01-01-24:00.csv'',
          header sample_runtime ''c172'' ''n12345'' @
          render_rows sample_runtime [] [hold_0, hold_1]) \<and>
   count_list (header sample_runtime ''c172'' ''n12345'') newline = 3 \<and>
   count_list (render_rows sample_runtime [] [hold_0, hold_1]) newline = 2"
proof -
  have "t hold_0 = 0"
    by (simp add: hold_0_def)
  then have name: "''outputs/'' @ toLocaleUpperCase sample_runtime ''n12345'' @ ''-'' @
             format sample_runtime (t hold_0) ''yyyy-LL-dd-kk:mm'' @ ''.csv'' =
      ''outputs/N12345-1970-01-01-24:00.csv''"
    by (simp add: sample_upper_text) (simp add: sample_runtime_def sample_format_def
        two_digits_def digit_def)
  have run: "main sample_runtime ''fa/hold'' ''n12345'' ''c172'' =
     Inr (''outputs/N12345-1970-01-01-24:00.csv'',
          header sample_runtime ''c172'' ''n12345'' @
          render_rows sample_runtime [] [hold_0, hold_1])"
    using track_of_hold name by (simp add: main_def)
  have head: "count_list (header sample_runtime ''c172'' ''n12345'') newline = 3"
    using header_rows_newline
      airframe_info_newline [of sample_runtime "''c172''" "''n12345''"]
    by (simp add: header_def count_list_absent sample_upper_text) (simp add: newline_def)
  have "\<forall>s \<in> set (row_strings sample_runtime hold_0). newline \<notin> set s"
    "\<forall>s \<in> set (row_strings sample_runtime hold_1). newline \<notin> set s"
    by (simp_all add: hold_strings newline_def)
  then have "count_list (butlast (render_row sample_runtime hold_0) @ [newline]) newline = 1"
    "count_list (butlast (render_row sample_runtime hold_1) @ [newline]) newline = 1"
    using render_row_line(2) by (simp_all add: count_list_absent)
  then have body: "count_list (render_rows sample_runtime [] [hold_0, hold_1]) newline = 2"
    using render_row_line(1) \<open>\<forall>s \<in> set (row_strings sample_runtime hold_0). newline \<notin> set s\<close>
      \<open>\<forall>s \<in> set (row_strings sample_runtime hold_1). newline \<notin> set s\<close>
    by (simp add: render_rows_concat)
  from run head body show ?thesis
    by (intro conjI)
qed

text \<open>
  Claim C10. A run of \<open>main\<close> that writes a file writes, for any other ident and model
  and the same url, a file whose text differs in the airframe line only, so the data
  lines and the two other header lines are the same, and whose name differs in the
  upper-cased ident only.
\<close>

theorem main_data_independent:
  assumes "main rt url ident model = Inr (filename, text)"
  shows "\<exists>stamp rest.
     filename = ''outputs/'' @ toLocaleUpperCase rt ident @ ''-'' @ stamp @ ''.csv'' \<and>
     text = airframe_info rt model ident @ [newline] @ rest \<and>
     main rt url ident' model' =
       Inr (''outputs/'' @ toLocaleUpperCase rt ident' @ ''-'' @ stamp @ ''.csv'',
            airframe_info rt model' ident' @ [newline] @ rest)"
  using assms
  by (auto simp: main_def header_def split: sum.splits option.splits list.splits)

theorem main_data_independent_witness:
  "\<exists>stamp rest.
     ''outputs/N12345-1970-01-01-24:00.csv'' =
       ''outputs/'' @ toLocaleUpperCase sample_runtime ''n12345'' @ ''-'' @ stamp @ ''.csv'' \<and>
     header sample_runtime ''c172'' ''n12345'' @ render_rows sample_runtime [] [hold_0, hold_1] =
       airframe_info sample_runtime ''c172'' ''n12345'' @ [newline] @ rest \<and>
     main sample_runtime ''fa/hold'' ''n54321'' ''pa32'' =
       Inr (''outputs/'' @ toLocaleUpperCase sample_runtime ''n54321'' @ ''-'' @ stamp @ ''.csv'',
            airframe_info sample_runtime ''pa32'' ''n54321'' @ [newline] @ rest)"
proof -
  have "t hold_0 = 0"
    by (simp add: hold_0_def)
  then have name: "''outputs/'' @ toLocaleUpperCase sample_runtime ''n12345'' @ ''-'' @
             format sample_runtime (t hold_0) ''yyyy-LL-dd-kk:mm'' @ ''.csv'' =
      ''outputs/N12345-1970-01-01-24:00.csv''"
    by (simp add: sample_upper_text) (simp add: sample_runtime_def sample_format_def
        two_digits_def digit_def)
  have run: "main sample_runtime ''fa/hold'' ''n12345'' ''c172'' =
     Inr (''outputs/N12345-1970-01-01-24:00.csv'',
          header sample_runtime ''c172'' ''n12345'' @
          render_rows sample_runtime [] [hold_0, hold_1])"
    using track_of_hold name by (simp add: main_def)
  from main_data_independent [OF run] show ?thesis .
qed

section \<open>Several urls\<close>



















end
